theory Spec2Isabelle
  imports Complex_Main "HOL-Library.Word" "HOL-Library.Sublist"
begin

section \<open>Values\<close>

text \<open>
  A JavaScript number is modelled as a real. An optional numeric argument of a p5 function
  is a \<open>jsarg\<close>: the argument left out (\<open>Undefined\<close>), the number \<open>NaN\<close>, or an ordinary
  number. The infinities are not part of the model. Where the source divides, the model
  divides in the reals; the two agree whenever the divisor is not zero.
\<close>

datatype jsarg = Undefined | NaN | JNum real

text \<open>
  \<open>a || d\<close> for an argument \<open>a\<close> and a numeric default \<open>d\<close>: \<open>undefined\<close>, \<open>NaN\<close> and
  \<open>0\<close> are falsy and give the default.
\<close>

fun or_default :: "jsarg \<Rightarrow> real \<Rightarrow> real" where
  "or_default (JNum v) d = (if v \<noteq> 0 then v else d)"
| "or_default Undefined d = d"
| "or_default NaN d = d"


section \<open>Images\<close>

text \<open>
  A canvas element: its width, its height and the RGBA bytes that \<open>getImageData\<close> reads
  from its 2D context, four per pixel, row after row.
\<close>

record canvas_el =
  c_width :: nat
  c_height :: nat
  c_data :: "8 word list"

text \<open>
  The DOM element behind a media source. \<open>videoWidth\<close> and \<open>videoHeight\<close> are 0 when the
  element is not a video (the source tests them for truthiness only). \<open>style_width\<close> is
  \<open>None\<close> when \<open>elt.style.width\<close> is the empty string, and otherwise holds the number that
  \<open>parseInt(elt.style.width, 10)\<close> reads from it; a style width that does not begin with a
  number is not part of the model.
\<close>

record element =
  videoWidth :: real
  videoHeight :: real
  e_width :: real
  style_width :: "real option"

text \<open>
  What \<open>image\<close> and the tint compositor read of their \<open>img\<close> argument: a p5.Image has a
  canvas and no element, a video source has an element and (unless it was drawn to a
  canvas) no canvas.
\<close>

record img =
  i_width :: real
  i_height :: real
  canvas :: "canvas_el option"
  elt :: "element option"

subsection \<open>\<open>_sAssign\<close>\<close>


subsection \<open>\<open>image\<close>\<close>

text \<open>
  The renderer state that the functions of the two files touch. \<open>r_tint\<close> is \<open>_tint\<close>
  (\<open>None\<close> is \<open>null\<close>; otherwise the four levels of a p5.Color, which are integers),
  \<open>r_imageMode\<close> is \<open>_imageMode\<close> and \<open>r_curCamera\<close> is \<open>_curCamera\<close>. A matrix is the
  list of its 16 coefficients, column after column.
\<close>

type_synonym Matrix4x4 = "real list"

record 'v renderer =
  uMVMatrix :: Matrix4x4
  uPMatrix :: Matrix4x4
  r_curCamera :: string
  r_tint :: "(nat \<times> nat \<times> nat \<times> nat) option"
  r_imageMode :: 'v

record 'v p5 =
  width :: real
  height :: real
  p5_renderer :: "'v renderer"





subsection \<open>\<open>_getTintedImageCanvas\<close>\<close>

text \<open>
  The exceptions of the platform that the compositor can meet: \<open>getImageData\<close> and
  \<open>createImageData\<close> throw an IndexSizeError for a width or height of zero; reading an
  index of \<open>null\<close> throws a TypeError.
\<close>

datatype dom_error = IndexSizeError | TypeError

text \<open>
  Storing a number in a \<open>Uint8ClampedArray\<close>: \<open>NaN\<close> (here \<open>None\<close>) becomes 0, the number
  is clamped to the range from 0 to 255 and rounded to the nearest integer, a tie going
  to the even one.
\<close>

definition toUint8Clamp :: "real option \<Rightarrow> 8 word" where
  "toUint8Clamp v =
     (case v of
        None \<Rightarrow> 0
      | Some x \<Rightarrow>
          if x \<le> 0 then 0
          else if 255 \<le> x then 255
          else (let f = \<lfloor>x\<rfloor> in
                if x - of_int f < 1 / 2 then of_int f
                else if 1 / 2 < x - of_int f then of_int (f + 1)
                else if even f then of_int f
                else of_int (f + 1)))"

text \<open>Reading index \<open>j\<close> of the pixel array: \<open>undefined\<close> out of range, which arithmetic
  turns into \<open>NaN\<close>.\<close>

definition px :: "8 word list \<Rightarrow> nat \<Rightarrow> real option" where
  "px pixels j = (if j < length pixels then Some (real (unat (pixels ! j))) else None)"

text \<open>
  \<open>v * t / 255\<close> for a pixel byte \<open>v\<close> and a tint level \<open>t\<close>. For a byte and an integer
  level up to 255 the product is an integer of at most 65025, which a double holds exactly,
  and the quotient never lies halfway between two integers, so that the byte stored for
  the double quotient is the byte stored for the real one.
\<close>

definition scale :: "real option \<Rightarrow> nat \<Rightarrow> real option" where
  "scale v t = map_option (\<lambda>r. r * real t / 255) v"

text \<open>
  The loop over the pixels. A store beyond the end of a typed array is ignored, which is
  what list update does.
\<close>

function tintLoop ::
  "8 word list \<Rightarrow> nat \<times> nat \<times> nat \<times> nat \<Rightarrow> nat \<Rightarrow> 8 word list \<Rightarrow> 8 word list" where
  "tintLoop pixels tint i newPixels =
     (if i < length pixels then
        (case tint of (t0, t1, t2, t3) \<Rightarrow>
           let r = px pixels i;
               g = px pixels (i + 1);
               b = px pixels (i + 2);
               a = px pixels (i + 3)
           in tintLoop pixels tint (i + 4)
                (newPixels[i := toUint8Clamp (scale r t0),
                           i + 1 := toUint8Clamp (scale g t1),
                           i + 2 := toUint8Clamp (scale b t2),
                           i + 3 := toUint8Clamp (scale a t3)]))
      else newPixels)"
  by pat_completeness auto
termination
  by (relation "measure (\<lambda>(pixels, tint, i, newPixels). length pixels - i)") auto

declare tintLoop.simps [simp del]

text \<open>
  Modelled from the spec: \<open>Filters._toPixels\<close>, which is not part of the two files, hands
  out the raw pixel buffer of a bitmap (``pixels: mutable buffer of RGBA8 quadruplets'').
  It reads the buffer with \<open>getImageData\<close>, which refuses an empty rectangle.
\<close>

definition Filters_toPixels :: "canvas_el \<Rightarrow> dom_error + 8 word list" where
  "Filters_toPixels c =
     (if c_width c = 0 \<or> c_height c = 0 then Inl IndexSizeError else Inr (c_data c))"

text \<open>\<open>createImageData(w, h).data\<close>: transparent black, four bytes per pixel.\<close>

definition createImageData :: "nat \<Rightarrow> nat \<Rightarrow> dom_error + 8 word list" where
  "createImageData w h =
     (if w = 0 \<or> h = 0 then Inl IndexSizeError else Inr (replicate (4 * w * h) 0))"

text \<open>
  The temporary canvas of the compositor: its width, its height and the bytes of the
  ImageData that \<open>putImageData\<close> has written to it at \<open>(0, 0)\<close>. What the canvas keeps of
  these bytes is the platform's affair and not part of the model: a canvas may store its
  pixels premultiplied by alpha, so that \<open>getImageData\<close> can read other bytes than the
  written ones for a pixel that is not opaque.
\<close>

record tmp_canvas =
  t_width :: nat
  t_height :: nat
  t_imageData :: "8 word list"

text \<open>The compositor returns either its argument or the temporary canvas.\<close>

datatype tinted = SameImage img | TmpCanvas tmp_canvas

definition getTintedImageCanvas :: "'v p5 \<Rightarrow> img \<Rightarrow> dom_error + tinted" where
  "getTintedImageCanvas this im =
     (case canvas im of
        None \<Rightarrow> Inr (SameImage im)
      | Some c \<Rightarrow>
          (case Filters_toPixels c of
             Inl e \<Rightarrow> Inl e
           | Inr pixels \<Rightarrow>
               (case createImageData (c_width c) (c_height c) of
                  Inl e \<Rightarrow> Inl e
                | Inr newPixels \<Rightarrow>
                    (case r_tint (p5_renderer this) of
                       None \<Rightarrow>
                         if pixels = [] then
                           Inr (TmpCanvas \<lparr>t_width = c_width c, t_height = c_height c,
                                            t_imageData = newPixels\<rparr>)
                         else Inl TypeError
                     | Some tint \<Rightarrow>
                         Inr (TmpCanvas \<lparr>t_width = c_width c, t_height = c_height c,
                                          t_imageData = tintLoop pixels tint 0 newPixels\<rparr>)))))"

subsection \<open>\<open>imageMode\<close>\<close>

text \<open>
  The three constants of \<open>core/constants\<close>, which is not part of the two files: they are
  parameters, of any type of values compared with \<open>===\<close>.
\<close>

record 'v constants =
  CORNER :: 'v
  CORNERS :: 'v
  CENTER :: 'v

definition imageMode :: "'v constants \<Rightarrow> 'v p5 \<Rightarrow> 'v \<Rightarrow> 'v p5" where
  "imageMode consts this m =
     (if m = CORNER consts \<or> m = CORNERS consts \<or> m = CENTER consts
      then this\<lparr>p5_renderer := (p5_renderer this)\<lparr>r_imageMode := m\<rparr>\<rparr>
      else this)"

subsection \<open>\<open>loadImage\<close>\<close>

text \<open>
  Modelled from the spec: the constructor \<open>p5.Image\<close>, which is not part of the two files,
  makes a bitmap of the given width and height with a pixel buffer of that size (its own
  canvas, cleared).
\<close>

definition new_p5Image :: "nat \<Rightarrow> nat \<Rightarrow> img" where
  "new_p5Image w h =
     \<lparr>i_width = real w, i_height = real h,
      canvas = Some \<lparr>c_width = w, c_height = h, c_data = replicate (4 * w * h) 0\<rparr>,
      elt = None\<rparr>"

text \<open>
  A callback argument: either not a function, or a function, named by a number so that
  \<open>!==\<close> can tell two functions apart.
\<close>

datatype callback = NotAFunction | Function nat

text \<open>
  The \<open>Image\<close> element that \<open>loadImage\<close> creates and sets loading; \<open>src\<close> is the path as
  \<open>loadImage\<close> has assigned it.
\<close>

record html_image =
  src :: string
  crossOrigin :: "string option"

text \<open>
  What the two handlers close over, besides \<open>pImg\<close>. \<open>p5._getDecrementPreload\<close> is not
  part of the two files; what it returns is the parameter \<open>decrementPreload\<close>
  (\<open>NotAFunction\<close> for \<open>null\<close>).
\<close>

record pending =
  p_img :: html_image
  successCallback :: callback
  failureCallback :: callback
  decrementPreload :: callback

text \<open>
  A decoded image, as the element holds it when \<open>onload\<close> fires: its width, its height
  and the bytes that drawing it on a cleared canvas of that size leaves there.
\<close>

record decoded =
  d_width :: nat
  d_height :: nat
  d_data :: "8 word list"

text \<open>The calls that a handler makes, in order.\<close>

datatype call =
  CallSuccess img
| CallDecrementPreload
| CallFriendlyFileLoadError nat string
| CallFailure

text \<open>
  \<open>loadImage\<close> returns \<open>pImg\<close> at once; the handlers it has registered run later, when
  the browser reports the outcome. The model returns \<open>pImg\<close> together with what the
  handlers need.
\<close>

definition loadImage :: "string \<Rightarrow> callback \<Rightarrow> callback \<Rightarrow> callback \<Rightarrow> img \<times> pending" where
  "loadImage path success failure decrement =
     (let pImg = new_p5Image 1 1;
          cross = (if \<not> prefix ''data:image/'' path then Some ''Anonymous'' else None)
      in (pImg, \<lparr>p_img = \<lparr>src = path, crossOrigin = cross\<rparr>,
                 successCallback = success, failureCallback = failure,
                 decrementPreload = decrement\<rparr>))"

definition onload :: "pending \<Rightarrow> decoded \<Rightarrow> img \<Rightarrow> img \<times> call list" where
  "onload p d pImg =
     (let pImg1 = pImg\<lparr>i_width := real (d_width d), i_height := real (d_height d),
                       canvas := Some \<lparr>c_width = d_width d, c_height = d_height d,
                                        c_data = d_data d\<rparr>\<rparr>
      in (pImg1,
          (if successCallback p \<noteq> NotAFunction then [CallSuccess pImg1] else []) @
          (if decrementPreload p \<noteq> NotAFunction \<and> successCallback p \<noteq> decrementPreload p
           then [CallDecrementPreload] else [])))"

definition onerror :: "pending \<Rightarrow> img \<Rightarrow> img \<times> call list" where
  "onerror p pImg =
     (pImg,
      CallFriendlyFileLoadError 0 (src (p_img p)) #
      (if failureCallback p \<noteq> NotAFunction \<and> failureCallback p \<noteq> decrementPreload p
       then [CallFailure] else []))"

text \<open>The outcome of the load, and the handler that the browser runs for it.\<close>

datatype load_event = Loaded decoded | LoadError

fun settle :: "img \<times> pending \<Rightarrow> load_event \<Rightarrow> img \<times> call list" where
  "settle (pImg, p) (Loaded d) = onload p d pImg"
| "settle (pImg, p) LoadError = onerror p pImg"

section \<open>Camera\<close>

subsection \<open>Matrices\<close>

text \<open>
  Modelled from the spec: \<open>p5.Matrix\<close> is not part of the two files. The spec has a
  4\<times>4 matrix of 16 coefficients with an identity, a multiplication, a translation that is
  composed into a matrix, and the standard perspective and orthographic projections.
  Here the coefficients are stored column after column, coefficient \<open>(row, col)\<close> at index
  \<open>col * 4 + row\<close>, and \<open>translate\<close> multiplies the translation on the right. The first
  definition is the identity.
\<close>

definition Matrix_identity :: Matrix4x4 where
  "Matrix_identity = [1, 0, 0, 0,  0, 1, 0, 0,  0, 0, 1, 0,  0, 0, 0, 1]"

text \<open>
  Modelled from the spec: the multiplication of \<open>p5.Matrix\<close>, the product of two 4\<times>4
  matrices in the layout above.
\<close>

definition mat_mult :: "Matrix4x4 \<Rightarrow> Matrix4x4 \<Rightarrow> Matrix4x4" where
  "mat_mult a b =
     map (\<lambda>i. a ! (i mod 4) * b ! (i div 4 * 4)
             + a ! (4 + i mod 4) * b ! (i div 4 * 4 + 1)
             + a ! (8 + i mod 4) * b ! (i div 4 * 4 + 2)
             + a ! (12 + i mod 4) * b ! (i div 4 * 4 + 3)) [0..<16]"

text \<open>
  Modelled from the spec: the matrix of the translation by \<open>(x, y, z)\<close>, and the
  \<open>translate\<close> of \<open>p5.Matrix\<close>, which composes it into a matrix.
\<close>

definition translation :: "real \<Rightarrow> real \<Rightarrow> real \<Rightarrow> Matrix4x4" where
  "translation x y z = [1, 0, 0, 0,  0, 1, 0, 0,  0, 0, 1, 0,  x, y, z, 1]"

text \<open>
  Modelled from the spec: \<open>translate\<close> of \<open>p5.Matrix\<close>; the translation is the right
  factor of the product.
\<close>

definition Matrix_translate :: "Matrix4x4 \<Rightarrow> real \<Rightarrow> real \<Rightarrow> real \<Rightarrow> Matrix4x4" where
  "Matrix_translate m x y z = mat_mult m (translation x y z)"

text \<open>
  Modelled from the spec: the standard perspective matrix of a vertical field of view, an
  aspect ratio and the two clip distances. The method overwrites the matrix it is called
  on, which the source creates as the identity.
\<close>

definition Matrix_perspective ::
  "Matrix4x4 \<Rightarrow> real \<Rightarrow> real \<Rightarrow> real \<Rightarrow> real \<Rightarrow> Matrix4x4" where
  "Matrix_perspective m fovy aspect near far =
     (let f = 1 / tan (fovy / 2); nf = 1 / (near - far)
      in [f / aspect, 0, 0, 0,
          0, f, 0, 0,
          0, 0, (far + near) * nf, -1,
          0, 0, 2 * far * near * nf, 0])"

text \<open>
  Modelled from the spec: the orthographic matrix that maps the box to the clip volume,
  the corner \<open>(left, bottom, near)\<close> to \<open>(-1, -1, -1)\<close> and \<open>(right, top, far)\<close> to
  \<open>(1, 1, 1)\<close>.
\<close>

definition Matrix_ortho ::
  "Matrix4x4 \<Rightarrow> real \<Rightarrow> real \<Rightarrow> real \<Rightarrow> real \<Rightarrow> real \<Rightarrow> real \<Rightarrow> Matrix4x4" where
  "Matrix_ortho m left right bottom top' near far =
     (let lr = 1 / (left - right); bt = 1 / (bottom - top'); nf = 1 / (near - far)
      in [- 2 * lr, 0, 0, 0,
          0, - 2 * bt, 0, 0,
          0, 0, - 2 * nf, 0,
          (left + right) * lr, (top' + bottom) * bt, (far + near) * nf, 1])"

text \<open>
  Modelled from the spec: the renderer's \<open>translate\<close>, which is not part of the two files,
  composes the translation into the view matrix and touches nothing else.
\<close>

definition renderer_translate :: "'v renderer \<Rightarrow> real \<Rightarrow> real \<Rightarrow> real \<Rightarrow> 'v renderer" where
  "renderer_translate r x y z = r\<lparr>uMVMatrix := Matrix_translate (uMVMatrix r) x y z\<rparr>"

subsection \<open>\<open>camera\<close>, \<open>perspective\<close>, \<open>ortho\<close>\<close>

text \<open>Modelled from the spec: \<open>this.PI\<close>, not part of the two files, is \<open>\<pi>\<close>.\<close>

definition p5_PI :: real where
  "p5_PI = pi"

text \<open>Modelled from the spec: \<open>this.tan\<close>, not part of the two files, is the tangent.\<close>

definition p5_tan :: "real \<Rightarrow> real" where
  "p5_tan x = tan x"

definition camera :: "'v p5 \<Rightarrow> real \<Rightarrow> real \<Rightarrow> real \<Rightarrow> 'v p5" where
  "camera this x y z =
     this\<lparr>p5_renderer := renderer_translate (p5_renderer this) (- x) (- y) (- z)\<rparr>"

definition perspective :: "'v p5 \<Rightarrow> jsarg \<Rightarrow> jsarg \<Rightarrow> jsarg \<Rightarrow> jsarg \<Rightarrow> 'v p5" where
  "perspective this fovy aspect near far =
     (let fovy1 = or_default fovy (60 / 180 * p5_PI);
          aspect1 = or_default aspect (width this / height this);
          near1 = or_default near ((height this / 2) / p5_tan (fovy1 / 2) * 0.1);
          far1 = or_default far ((height this / 2) / p5_tan (fovy1 / 2) * 10)
      in this\<lparr>p5_renderer := (p5_renderer this)
           \<lparr>uPMatrix := Matrix_perspective Matrix_identity fovy1 aspect1 near1 far1,
            r_curCamera := ''custom''\<rparr>\<rparr>)"

definition ortho ::
  "'v p5 \<Rightarrow> jsarg \<Rightarrow> jsarg \<Rightarrow> jsarg \<Rightarrow> jsarg \<Rightarrow> jsarg \<Rightarrow> jsarg \<Rightarrow> 'v p5" where
  "ortho this left right bottom top' near far =
     (let left1 = or_default left (- width this / 2);
          right1 = or_default right (width this / 2);
          bottom1 = or_default bottom (- height this / 2);
          top1 = or_default top' (height this / 2);
          near1 = or_default near 0;
          far1 = or_default far (max (width this) (height this))
      in this\<lparr>p5_renderer := (p5_renderer this)
           \<lparr>uPMatrix := Matrix_ortho Matrix_identity left1 right1 bottom1 top1 near1 far1,
            r_curCamera := ''custom''\<rparr>\<rparr>)"

text \<open>A sequence of camera commands, run from left to right.\<close>

datatype command =
  Camera real real real
| Perspective jsarg jsarg jsarg jsarg
| Ortho jsarg jsarg jsarg jsarg jsarg jsarg

fun exec :: "'v p5 \<Rightarrow> command \<Rightarrow> 'v p5" where
  "exec this (Camera x y z) = camera this x y z"
| "exec this (Perspective fovy aspect near far) = perspective this fovy aspect near far"
| "exec this (Ortho l r b t n f) = ortho this l r b t n f"

definition run :: "'v p5 \<Rightarrow> command list \<Rightarrow> 'v p5" where
  "run this cmds = foldl exec this cmds"

text \<open>
  The parameters that the spec calls invalid for a perspective projection: an aspect
  ratio that is zero or negative, a near distance that is not positive, a far distance
  not beyond the near one, or a field of view outside \<open>(0, \<pi>)\<close>.
\<close>

definition InvalidProjectionParameters :: "real \<Rightarrow> real \<Rightarrow> real \<Rightarrow> real \<Rightarrow> bool" where
  "InvalidProjectionParameters fovy aspect near far =
     (aspect \<le> 0 \<or> near \<le> 0 \<or> far \<le> near \<or> \<not> (0 < fovy \<and> fovy < pi))"

section \<open>Sample values\<close>

text \<open>The tint level that belongs to the byte at offset \<open>k\<close> of a pixel.\<close>

definition level :: "nat \<times> nat \<times> nat \<times> nat \<Rightarrow> nat \<Rightarrow> nat" where
  "level tint k =
     (case tint of (t0, t1, t2, t3) \<Rightarrow>
        if k = 0 then t0 else if k = 1 then t1 else if k = 2 then t2 else t3)"

text \<open>A 100 by 100 sketch in its initial state, with strings for the mode constants.\<close>

definition p5_constants :: "string constants" where
  "p5_constants = \<lparr>CORNER = ''corner'', CORNERS = ''corners'', CENTER = ''center''\<rparr>"

definition sketch :: "string p5" where
  "sketch = \<lparr>width = 100, height = 100,
             p5_renderer = \<lparr>uMVMatrix = Matrix_identity, uPMatrix = Matrix_identity,
                            r_curCamera = ''default'', r_tint = None,
                            r_imageMode = ''corner''\<rparr>\<rparr>"

definition tinted_sketch :: "string p5" where
  "tinted_sketch =
     sketch\<lparr>p5_renderer := (p5_renderer sketch)\<lparr>r_tint := Some (0, 153, 204, 255)\<rparr>\<rparr>"



definition white_pixel :: img where
  "white_pixel =
     \<lparr>i_width = 1, i_height = 1,
      canvas = Some \<lparr>c_width = 1, c_height = 1, c_data = [255, 255, 255, 255]\<rparr>,
      elt = None\<rparr>"

definition video_source :: img where
  "video_source =
     \<lparr>i_width = 320, i_height = 240, canvas = None,
      elt = Some \<lparr>videoWidth = 640, videoHeight = 480, e_width = 320,
                  style_width = None\<rparr>\<rparr>"

definition two_pixels :: decoded where
  "two_pixels = \<lparr>d_width = 2, d_height = 1,
                  d_data = [255, 0, 0, 255,  0, 0, 255, 255]\<rparr>"

section \<open>Source sub-rectangle\<close>





section \<open>Tint compositor\<close>

lemma length_tintLoop: "length (tintLoop pixels tint i np) = length np"
proof (induction pixels tint i np rule: tintLoop.induct)
  case (1 pixels tint i np)
  show ?case
    using 1 by (subst tintLoop.simps) (auto simp: Let_def split: prod.splits)
qed

lemma tintLoop_step:
  "i < length pixels \<Longrightarrow>
   tintLoop pixels (t0, t1, t2, t3) i np =
   tintLoop pixels (t0, t1, t2, t3) (i + 4)
     (np[i := toUint8Clamp (scale (px pixels i) t0),
         i + 1 := toUint8Clamp (scale (px pixels (i + 1)) t1),
         i + 2 := toUint8Clamp (scale (px pixels (i + 2)) t2),
         i + 3 := toUint8Clamp (scale (px pixels (i + 3)) t3)])"
  by (subst tintLoop.simps) (simp add: Let_def)

lemma tintLoop_stop: "\<not> i < length pixels \<Longrightarrow> tintLoop pixels tint i np = np"
  by (subst tintLoop.simps) simp

lemma tintLoop_nth:
  "4 dvd length pixels \<Longrightarrow> length np = length pixels \<Longrightarrow> 4 dvd i \<Longrightarrow> j < length pixels \<Longrightarrow>
   tintLoop pixels tint i np ! j =
     (if i \<le> j then toUint8Clamp (scale (px pixels j) (level tint (j mod 4))) else np ! j)"
proof (induction "length pixels - i" arbitrary: i np rule: less_induct)
  case less
  obtain t0 t1 t2 t3 where t: "tint = (t0, t1, t2, t3)" by (cases tint) auto
  show ?case
  proof (cases "i < length pixels")
    case False
    with less.prems show ?thesis by (simp add: tintLoop_stop)
  next
    case True
    let ?np = "np[i := toUint8Clamp (scale (px pixels i) t0),
         i + 1 := toUint8Clamp (scale (px pixels (i + 1)) t1),
         i + 2 := toUint8Clamp (scale (px pixels (i + 2)) t2),
         i + 3 := toUint8Clamp (scale (px pixels (i + 3)) t3)]"
    from less.prems True have i3: "i + 3 < length pixels"
      by (auto simp: dvd_def)
    have IH: "tintLoop pixels tint (i + 4) ?np ! j =
       (if i + 4 \<le> j then toUint8Clamp (scale (px pixels j) (level tint (j mod 4))) else ?np ! j)"
      using less.prems True by (intro less.hyps) auto
    have imod: "i mod 4 = 0" using less.prems by auto
    have m: "(i + 1) mod 4 = 1" "(i + 2) mod 4 = 2" "(i + 3) mod 4 = 3"
      using imod by presburger+
    have step: "tintLoop pixels tint i np = tintLoop pixels tint (i + 4) ?np"
      using True by (simp add: t tintLoop_step)
    have len: "length ?np = length pixels" using less.prems by simp
    consider "j < i" | "j = i" | "j = i + 1" | "j = i + 2" | "j = i + 3" | "i + 4 \<le> j"
      by linarith
    then show ?thesis
    proof cases
      case 1 then show ?thesis unfolding step IH by simp
    next
      case 2 then show ?thesis unfolding step IH using i3 less.prems imod by (simp add: t level_def)
    next
      case 3 then show ?thesis unfolding step IH using i3 less.prems m by (simp add: t level_def)
    next
      case 4 then show ?thesis unfolding step IH using i3 less.prems m by (simp add: t level_def)
    next
      case 5 then show ?thesis unfolding step IH using i3 less.prems m by (simp add: t level_def)
    next
      case 6 then show ?thesis unfolding step IH by simp
    qed
  qed
qed

lemma unat_of_int_small: "0 \<le> k \<Longrightarrow> k < 256 \<Longrightarrow> unat (of_int k :: 8 word) = nat k"
  by (simp add: unsigned_of_int take_bit_int_eq_self)

lemma no_tie: "real n / 255 - of_int f \<noteq> 1 / 2"
proof
  assume "real n / 255 - of_int f = 1 / 2"
  then have "2 * real n = 255 * (2 * of_int f + 1)" by (simp add: field_simps)
  then have "(of_int (2 * int n) :: real) = of_int (255 * (2 * f + 1))" by simp
  then have "2 * int n = 255 * (2 * f + 1)" by (simp only: of_int_eq_iff)
  then show False by presburger
qed

lemma toUint8Clamp_nearest:
  fixes v :: "8 word"
  assumes "t \<le> 255"
  shows "\<bar>real (unat (toUint8Clamp (scale (Some (real (unat v))) t))) - real (unat v) * real t / 255\<bar> < 1 / 2"
proof -
  define n where "n = unat v * t"
  define x where "x = real n / 255"
  have v: "unat v \<le> 255" using unsigned_less [of v, where ?'a = nat] by simp
  have n: "n \<le> 65025" using mult_le_mono [OF v assms] by (simp add: n_def)
  have sc: "scale (Some (real (unat v))) t = Some x" by (simp add: scale_def x_def n_def)
  have x0: "0 \<le> x" by (simp add: x_def)
  have x255: "x \<le> 255" using n by (simp add: x_def)
  have goal: "real (unat v) * real t / 255 = x" by (simp add: x_def n_def)
  have "\<bar>real (unat (toUint8Clamp (Some x))) - x\<bar> < 1 / 2"
  proof (cases "x \<le> 0 \<or> 255 \<le> x")
    case True
    then show ?thesis using x0 x255 by (auto simp: toUint8Clamp_def)
  next
    case False
    define f where "f = \<lfloor>x\<rfloor>"
    have f0: "0 \<le> f" using x0 by (simp add: f_def)
    have f254: "f < 255" using False by (simp add: f_def floor_less_iff)
    have fl: "of_int f \<le> x" "x < of_int f + 1" by (simp_all add: f_def)
    have tie: "x - of_int f \<noteq> 1 / 2" unfolding x_def by (rule no_tie)
    show ?thesis
    proof (cases "x - of_int f < 1 / 2")
      case True
      with False have "toUint8Clamp (Some x) = of_int f"
        by (simp add: toUint8Clamp_def Let_def f_def [symmetric])
      moreover have "real (unat (of_int f :: 8 word)) = of_int f"
        using f0 f254 by (simp add: unat_of_int_small)
      ultimately show ?thesis using True fl by simp
    next
      case nl: False
      with tie have up: "1 / 2 < x - of_int f" by simp
      with False nl have "toUint8Clamp (Some x) = of_int (f + 1)"
        by (simp add: toUint8Clamp_def Let_def f_def [symmetric] del: of_int_add)
      moreover have "real (unat (of_int (f + 1) :: 8 word)) = of_int f + 1"
        using f0 f254 by (simp add: unat_of_int_small del: of_int_add)
      ultimately show ?thesis using up fl by simp
    qed
  qed
  then show ?thesis by (simp only: sc goal)
qed


lemma getTinted_data:
  assumes "canvas im = Some c" "r_tint (p5_renderer this) = Some tint"
    "0 < c_width c" "0 < c_height c"
  shows "getTintedImageCanvas this im =
     Inr (TmpCanvas \<lparr>t_width = c_width c, t_height = c_height c,
        t_imageData = tintLoop (c_data c) tint 0 (replicate (4 * c_width c * c_height c) 0)\<rparr>)"
  using assms by (simp add: getTintedImageCanvas_def Filters_toPixels_def createImageData_def)

lemma tinted_channel:
  assumes "length pixels = 4 * n" "p < n" "k < 4"
  shows "tintLoop pixels tint 0 (replicate (4 * n) 0) ! (4 * p + k) =
     toUint8Clamp (Some (real (unat (pixels ! (4 * p + k))) * real (level tint k) / 255))"
proof -
  have j: "4 * p + k < length pixels" using assms by simp
  have md: "(4 * p + k) mod 4 = k" using assms(3) by simp
  have "tintLoop pixels tint 0 (replicate (4 * n) 0) ! (4 * p + k) =
     toUint8Clamp (scale (px pixels (4 * p + k)) (level tint ((4 * p + k) mod 4)))"
    using assms j by (subst tintLoop_nth) simp_all
  then show ?thesis using j by (simp only: md px_def scale_def if_True option.map)
qed

lemma tinted_pixels:
  assumes "canvas im = Some c" and "r_tint (p5_renderer this) = Some (tintR, tintG, tintB, tintA)"
    and "0 < c_width c" and "0 < c_height c"
    and "length (c_data c) = 4 * (c_width c * c_height c)"
    and "tintR \<le> 255" and "tintG \<le> 255" and "tintB \<le> 255" and "tintA \<le> 255"
  shows "\<exists>out. getTintedImageCanvas this im = Inr (TmpCanvas out) \<and>
     t_width out = c_width c \<and> t_height out = c_height c \<and>
     length (t_imageData out) = length (c_data c) \<and>
     (\<forall>p < c_width c * c_height c.
        t_imageData out ! (4 * p) = toUint8Clamp (Some (real (unat (c_data c ! (4 * p))) * real tintR / 255)) \<and>
        t_imageData out ! (4 * p + 1) = toUint8Clamp (Some (real (unat (c_data c ! (4 * p + 1))) * real tintG / 255)) \<and>
        t_imageData out ! (4 * p + 2) = toUint8Clamp (Some (real (unat (c_data c ! (4 * p + 2))) * real tintB / 255)) \<and>
        t_imageData out ! (4 * p + 3) = toUint8Clamp (Some (real (unat (c_data c ! (4 * p + 3))) * real tintA / 255)) \<and>
        \<bar>real (unat (t_imageData out ! (4 * p))) - real (unat (c_data c ! (4 * p))) * real tintR / 255\<bar> < 1 / 2 \<and>
        \<bar>real (unat (t_imageData out ! (4 * p + 1))) - real (unat (c_data c ! (4 * p + 1))) * real tintG / 255\<bar> < 1 / 2 \<and>
        \<bar>real (unat (t_imageData out ! (4 * p + 2))) - real (unat (c_data c ! (4 * p + 2))) * real tintB / 255\<bar> < 1 / 2 \<and>
        \<bar>real (unat (t_imageData out ! (4 * p + 3))) - real (unat (c_data c ! (4 * p + 3))) * real tintA / 255\<bar> < 1 / 2)"
proof -
  let ?tint = "(tintR, tintG, tintB, tintA)"
  let ?n = "c_width c * c_height c"
  let ?out = "\<lparr>t_width = c_width c, t_height = c_height c,
        t_imageData = tintLoop (c_data c) ?tint 0 (replicate (4 * ?n) 0)\<rparr>"
  have ret: "getTintedImageCanvas this im = Inr (TmpCanvas ?out)"
    using getTinted_data [OF assms(1,2,3,4)] by (simp add: mult.assoc)
  have len: "length (t_imageData ?out) = length (c_data c)"
    using assms(5) by (simp add: length_tintLoop)
  have chan: "t_imageData ?out ! (4 * p + k) =
      toUint8Clamp (Some (real (unat (c_data c ! (4 * p + k))) * real (level ?tint k) / 255))"
    if "p < ?n" "k < 4" for p k
    using tinted_channel [OF assms(5) that] by simp
  have near: "\<bar>real (unat (toUint8Clamp (Some (real (unat v) * real t / 255)))) - real (unat v) * real t / 255\<bar> < 1 / 2"
    if "t \<le> 255" for t and v :: "8 word"
    using toUint8Clamp_nearest [OF that, of v] by (simp add: scale_def)
  have px: "t_imageData ?out ! (4 * p) = toUint8Clamp (Some (real (unat (c_data c ! (4 * p))) * real tintR / 255)) \<and>
        t_imageData ?out ! (4 * p + 1) = toUint8Clamp (Some (real (unat (c_data c ! (4 * p + 1))) * real tintG / 255)) \<and>
        t_imageData ?out ! (4 * p + 2) = toUint8Clamp (Some (real (unat (c_data c ! (4 * p + 2))) * real tintB / 255)) \<and>
        t_imageData ?out ! (4 * p + 3) = toUint8Clamp (Some (real (unat (c_data c ! (4 * p + 3))) * real tintA / 255))"
    if "p < ?n" for p
    using chan [OF that, of 0] chan [OF that, of 1] chan [OF that, of 2] chan [OF that, of 3]
    by (simp add: level_def)
  show ?thesis
  proof (intro exI conjI allI impI)
    show "getTintedImageCanvas this im = Inr (TmpCanvas ?out)" by (rule ret)
  qed (use len px near assms(6-9) in \<open>simp_all\<close>)
qed

lemma white_pixel_tinted:
  "getTintedImageCanvas tinted_sketch white_pixel =
     Inr (TmpCanvas \<lparr>t_width = 1, t_height = 1, t_imageData = [0, 153, 204, 255]\<rparr>)"
proof -
  have c: "canvas white_pixel = Some \<lparr>c_width = 1, c_height = 1, c_data = [255, 255, 255, 255]\<rparr>"
    by (simp add: white_pixel_def)
  have t: "r_tint (p5_renderer tinted_sketch) = Some (0, 153, 204, 255)"
    by (simp add: tinted_sketch_def sketch_def)
  from tinted_pixels [OF c t] obtain out where
    r: "getTintedImageCanvas tinted_sketch white_pixel = Inr (TmpCanvas out)"
    and w: "t_width out = 1" and h: "t_height out = 1" and l: "length (t_imageData out) = 4"
    and p: "\<forall>p<1. t_imageData out ! (4 * p) = toUint8Clamp (Some (real (unat (255 :: 8 word)) * real 0 / 255)) \<and>
        t_imageData out ! (4 * p + 1) = toUint8Clamp (Some (real (unat ([255, 255, 255, 255 :: 8 word] ! (4 * p + 1))) * real 153 / 255)) \<and>
        t_imageData out ! (4 * p + 2) = toUint8Clamp (Some (real (unat ([255, 255, 255, 255 :: 8 word] ! (4 * p + 2))) * real 204 / 255)) \<and>
        t_imageData out ! (4 * p + 3) = toUint8Clamp (Some (real (unat ([255, 255, 255, 255 :: 8 word] ! (4 * p + 3))) * real 255 / 255))"
    by auto
  from l obtain x0 x1 x2 x3 where d: "t_imageData out = [x0, x1, x2, x3]"
    by (auto simp: length_Suc_conv numeral_eq_Suc)
  from p have "t_imageData out = [0, 153, 204, 255]"
    by (simp add: d toUint8Clamp_def)
  with r w h show ?thesis by (cases out) simp
qed


text \<open>
  C2. For a bitmap with a readable pixel buffer (a canvas of positive size holding four
  bytes per pixel) and a tint with levels between 0 and 255, the compositor returns a new
  canvas of the same size, and the pixels it has produced and put on that canvas are,
  for every pixel \<open>(r, g, b, a)\<close> of the source,
  \<open>(r * tintR / 255, g * tintG / 255, b * tintB / 255, a * tintA / 255)\<close>, each channel
  scaled on its own and stored as a byte: the integer nearest to the quotient, less than
  one half away from it. The tint \<open>(0, 153, 204, 255)\<close> turns the opaque white pixel
  \<open>(255, 255, 255, 255)\<close> into exactly \<open>(0, 153, 204, 255)\<close>.
\<close>

theorem tint_scales_channels:
  assumes "canvas im = Some c" and "r_tint (p5_renderer this) = Some (tintR, tintG, tintB, tintA)"
    and "0 < c_width c" and "0 < c_height c"
    and "length (c_data c) = 4 * (c_width c * c_height c)"
    and "tintR \<le> 255" and "tintG \<le> 255" and "tintB \<le> 255" and "tintA \<le> 255"
  shows "(\<exists>out. getTintedImageCanvas this im = Inr (TmpCanvas out) \<and>
     t_width out = c_width c \<and> t_height out = c_height c \<and>
     length (t_imageData out) = length (c_data c) \<and>
     (\<forall>p < c_width c * c_height c.
        t_imageData out ! (4 * p) = toUint8Clamp (Some (real (unat (c_data c ! (4 * p))) * real tintR / 255)) \<and>
        t_imageData out ! (4 * p + 1) = toUint8Clamp (Some (real (unat (c_data c ! (4 * p + 1))) * real tintG / 255)) \<and>
        t_imageData out ! (4 * p + 2) = toUint8Clamp (Some (real (unat (c_data c ! (4 * p + 2))) * real tintB / 255)) \<and>
        t_imageData out ! (4 * p + 3) = toUint8Clamp (Some (real (unat (c_data c ! (4 * p + 3))) * real tintA / 255)) \<and>
        \<bar>real (unat (t_imageData out ! (4 * p))) - real (unat (c_data c ! (4 * p))) * real tintR / 255\<bar> < 1 / 2 \<and>
        \<bar>real (unat (t_imageData out ! (4 * p + 1))) - real (unat (c_data c ! (4 * p + 1))) * real tintG / 255\<bar> < 1 / 2 \<and>
        \<bar>real (unat (t_imageData out ! (4 * p + 2))) - real (unat (c_data c ! (4 * p + 2))) * real tintB / 255\<bar> < 1 / 2 \<and>
        \<bar>real (unat (t_imageData out ! (4 * p + 3))) - real (unat (c_data c ! (4 * p + 3))) * real tintA / 255\<bar> < 1 / 2)) \<and>
    getTintedImageCanvas tinted_sketch white_pixel =
      Inr (TmpCanvas \<lparr>t_width = 1, t_height = 1, t_imageData = [0, 153, 204, 255]\<rparr>)"
  using tinted_pixels [OF assms] white_pixel_tinted by (rule conjI)

theorem tint_scales_channels_witness:
  "(\<exists>out. getTintedImageCanvas tinted_sketch white_pixel = Inr (TmpCanvas out) \<and>
      t_width out = 1 \<and> t_height out = 1 \<and> length (t_imageData out) = 4) \<and>
   getTintedImageCanvas tinted_sketch white_pixel =
     Inr (TmpCanvas \<lparr>t_width = 1, t_height = 1, t_imageData = [0, 153, 204, 255]\<rparr>)"
proof -
  have c: "canvas white_pixel =
      Some \<lparr>c_width = 1, c_height = 1, c_data = [255, 255, 255, 255]\<rparr>"
    by (simp add: white_pixel_def)
  have t: "r_tint (p5_renderer tinted_sketch) = Some (0, 153, 204, 255)"
    by (simp add: tinted_sketch_def sketch_def)
  show ?thesis
    using tint_scales_channels [OF c t] by auto
qed

text \<open>
  C8. For a bitmap without a canvas, and so without a pixel buffer to read, the compositor
  returns the bitmap itself, whatever the tint; it does not fail.
\<close>

theorem tint_without_canvas:
  "canvas im = None \<Longrightarrow> getTintedImageCanvas this im = Inr (SameImage im)"
  by (simp add: getTintedImageCanvas_def)

theorem tint_without_canvas_witness:
  "canvas video_source = None \<and>
   getTintedImageCanvas tinted_sketch video_source = Inr (SameImage video_source) \<and>
   getTintedImageCanvas sketch video_source = Inr (SameImage video_source)"
proof -
  have c: "canvas video_source = None"
    by (simp add: video_source_def)
  show ?thesis
    using c tint_without_canvas [OF c, of tinted_sketch] tint_without_canvas [OF c, of sketch]
    by simp
qed

section \<open>Image mode\<close>

text \<open>
  C7. A mode that is none of the three constants leaves the state as it was, the stored
  mode with it; each of the three constants becomes the stored mode. The setter has no
  failing branch.
\<close>

theorem imageMode_recognized_only:
  "(m \<noteq> CORNER consts \<and> m \<noteq> CORNERS consts \<and> m \<noteq> CENTER consts \<longrightarrow>
      imageMode consts this m = this) \<and>
   (m = CORNER consts \<or> m = CORNERS consts \<or> m = CENTER consts \<longrightarrow>
      r_imageMode (p5_renderer (imageMode consts this m)) = m)"
  by (auto simp: imageMode_def)

theorem imageMode_recognized_only_witness:
  "imageMode p5_constants sketch ''radius'' = sketch \<and>
   r_imageMode (p5_renderer (imageMode p5_constants sketch ''radius'')) = ''corner'' \<and>
   r_imageMode (p5_renderer (imageMode p5_constants sketch ''corner'')) = ''corner'' \<and>
   r_imageMode (p5_renderer (imageMode p5_constants sketch ''corners'')) = ''corners'' \<and>
   r_imageMode (p5_renderer (imageMode p5_constants sketch ''center'')) = ''center''"
  using imageMode_recognized_only [of "''radius''" p5_constants sketch]
    imageMode_recognized_only [of "''corner''" p5_constants sketch]
    imageMode_recognized_only [of "''corners''" p5_constants sketch]
    imageMode_recognized_only [of "''center''" p5_constants sketch]
  by (simp add: p5_constants_def sketch_def)

section \<open>Projections\<close>






lemma or_default_cases:
  "or_default a d =
     (case a of JNum v \<Rightarrow> if v = 0 then d else v | Undefined \<Rightarrow> d | NaN \<Rightarrow> d)"
  by (cases a) simp_all

text \<open>
  C6. An explicit 0, or \<open>NaN\<close>, for the field of view, the aspect ratio, the near or the
  far distance of \<open>perspective\<close> has the effect of leaving that argument out: for every
  combination of arguments, the matrix is built with the default in the place of each
  argument that is left out, 0 or \<open>NaN\<close>, and with the number passed in the place of each
  other one. With a near distance of 0 the matrix is built with the default near
  distance.
\<close>

theorem perspective_zero_is_omitted:
  "perspective this fovy aspect near far =
     (let fovy' = (case fovy of JNum v \<Rightarrow> if v = 0 then 60 / 180 * pi else v
                   | Undefined \<Rightarrow> 60 / 180 * pi | NaN \<Rightarrow> 60 / 180 * pi);
          aspect' = (case aspect of JNum v \<Rightarrow> if v = 0 then width this / height this else v
                     | Undefined \<Rightarrow> width this / height this
                     | NaN \<Rightarrow> width this / height this);
          dnear = (height this / 2) / tan (fovy' / 2) * 0.1;
          dfar = (height this / 2) / tan (fovy' / 2) * 10;
          near' = (case near of JNum v \<Rightarrow> if v = 0 then dnear else v
                   | Undefined \<Rightarrow> dnear | NaN \<Rightarrow> dnear);
          far' = (case far of JNum v \<Rightarrow> if v = 0 then dfar else v
                  | Undefined \<Rightarrow> dfar | NaN \<Rightarrow> dfar)
      in this\<lparr>p5_renderer := (p5_renderer this)
           \<lparr>uPMatrix := Matrix_perspective Matrix_identity fovy' aspect' near' far',
            r_curCamera := ''custom''\<rparr>\<rparr>) \<and>
   perspective this (JNum 0) aspect near far = perspective this Undefined aspect near far \<and>
   perspective this fovy (JNum 0) near far = perspective this fovy Undefined near far \<and>
   perspective this fovy aspect (JNum 0) far = perspective this fovy aspect Undefined far \<and>
   perspective this fovy aspect near (JNum 0) = perspective this fovy aspect near Undefined \<and>
   perspective this NaN aspect near far = perspective this Undefined aspect near far \<and>
   perspective this fovy NaN near far = perspective this fovy Undefined near far \<and>
   perspective this fovy aspect NaN far = perspective this fovy aspect Undefined far \<and>
   perspective this fovy aspect near NaN = perspective this fovy aspect near Undefined \<and>
   uPMatrix (p5_renderer (perspective this (JNum 1) (JNum 2) (JNum 0) (JNum 100))) =
     Matrix_perspective Matrix_identity 1 2 ((height this / 2) / tan (1 / 2) * 0.1) 100"
proof -
  have "perspective this fovy aspect near far =
     (let fovy' = (case fovy of JNum v \<Rightarrow> if v = 0 then 60 / 180 * pi else v
                   | Undefined \<Rightarrow> 60 / 180 * pi | NaN \<Rightarrow> 60 / 180 * pi);
          aspect' = (case aspect of JNum v \<Rightarrow> if v = 0 then width this / height this else v
                     | Undefined \<Rightarrow> width this / height this
                     | NaN \<Rightarrow> width this / height this);
          dnear = (height this / 2) / tan (fovy' / 2) * 0.1;
          dfar = (height this / 2) / tan (fovy' / 2) * 10;
          near' = (case near of JNum v \<Rightarrow> if v = 0 then dnear else v
                   | Undefined \<Rightarrow> dnear | NaN \<Rightarrow> dnear);
          far' = (case far of JNum v \<Rightarrow> if v = 0 then dfar else v
                  | Undefined \<Rightarrow> dfar | NaN \<Rightarrow> dfar)
      in this\<lparr>p5_renderer := (p5_renderer this)
           \<lparr>uPMatrix := Matrix_perspective Matrix_identity fovy' aspect' near' far',
            r_curCamera := ''custom''\<rparr>\<rparr>)"
    unfolding perspective_def p5_PI_def p5_tan_def or_default_cases Let_def by (rule refl)
  moreover have "perspective this (JNum 0) aspect near far = perspective this Undefined aspect near far"
    "perspective this fovy (JNum 0) near far = perspective this fovy Undefined near far"
    "perspective this fovy aspect (JNum 0) far = perspective this fovy aspect Undefined far"
    "perspective this fovy aspect near (JNum 0) = perspective this fovy aspect near Undefined"
    "perspective this NaN aspect near far = perspective this Undefined aspect near far"
    "perspective this fovy NaN near far = perspective this fovy Undefined near far"
    "perspective this fovy aspect NaN far = perspective this fovy aspect Undefined far"
    "perspective this fovy aspect near NaN = perspective this fovy aspect near Undefined"
    "uPMatrix (p5_renderer (perspective this (JNum 1) (JNum 2) (JNum 0) (JNum 100))) =
     Matrix_perspective Matrix_identity 1 2 ((height this / 2) / tan (1 / 2) * 0.1) 100"
    by (simp_all add: perspective_def p5_tan_def)
  ultimately show ?thesis by blast
qed

theorem perspective_zero_is_omitted_witness:
  "uPMatrix (p5_renderer (perspective sketch (JNum 0) (JNum 2) NaN (JNum 0))) =
     Matrix_perspective Matrix_identity (60 / 180 * pi) 2
       ((height sketch / 2) / tan ((60 / 180 * pi) / 2) * 0.1)
       ((height sketch / 2) / tan ((60 / 180 * pi) / 2) * 10) \<and>
   perspective sketch (JNum 1) (JNum 2) (JNum 0) (JNum 100) =
     perspective sketch (JNum 1) (JNum 2) Undefined (JNum 100) \<and>
   uPMatrix (p5_renderer (perspective sketch (JNum 1) (JNum 2) (JNum 0) (JNum 100))) =
     Matrix_perspective Matrix_identity 1 2 ((height sketch / 2) / tan (1 / 2) * 0.1) 100"
proof -
  have "uPMatrix (p5_renderer (perspective sketch (JNum 0) (JNum 2) NaN (JNum 0))) =
     Matrix_perspective Matrix_identity (60 / 180 * pi) 2
       ((height sketch / 2) / tan ((60 / 180 * pi) / 2) * 0.1)
       ((height sketch / 2) / tan ((60 / 180 * pi) / 2) * 10)"
    using perspective_zero_is_omitted [of sketch "JNum 0" "JNum 2" NaN "JNum 0"]
    by (simp add: Let_def)
  then show ?thesis
    using perspective_zero_is_omitted [of sketch "JNum 1" "JNum 2" "JNum 0" "JNum 100"]
    by blast
qed

text \<open>
  C3, as the source has it. \<open>perspective\<close> and \<open>ortho\<close> check nothing: whatever numbers
  they are given, invalid ones included, they build the matrix from them (a 0 replaced
  by the default), install it and set the projection kind to custom. Nothing is
  rejected or reported.
\<close>

theorem projection_parameters_unchecked:
  "(fovy \<noteq> 0 \<and> aspect \<noteq> 0 \<and> near \<noteq> 0 \<and> far \<noteq> 0 \<longrightarrow>
      perspective this (JNum fovy) (JNum aspect) (JNum near) (JNum far) =
        this\<lparr>p5_renderer := (p5_renderer this)
          \<lparr>uPMatrix := Matrix_perspective Matrix_identity fovy aspect near far,
           r_curCamera := ''custom''\<rparr>\<rparr>) \<and>
   (left \<noteq> 0 \<and> right \<noteq> 0 \<and> bottom \<noteq> 0 \<and> top' \<noteq> 0 \<and> onear \<noteq> 0 \<and> ofar \<noteq> 0 \<longrightarrow>
      ortho this (JNum left) (JNum right) (JNum bottom) (JNum top') (JNum onear) (JNum ofar) =
        this\<lparr>p5_renderer := (p5_renderer this)
          \<lparr>uPMatrix := Matrix_ortho Matrix_identity left right bottom top' onear ofar,
           r_curCamera := ''custom''\<rparr>\<rparr>)"
  by (simp add: perspective_def ortho_def)

theorem projection_parameters_unchecked_witness:
  "InvalidProjectionParameters (pi / 2) (- 2) 2 1 \<and>
   uPMatrix (p5_renderer (perspective sketch (JNum (pi / 2)) (JNum (- 2)) (JNum 2) (JNum 1))) =
     Matrix_perspective Matrix_identity (pi / 2) (- 2) 2 1 \<and>
   r_curCamera (p5_renderer (perspective sketch (JNum (pi / 2)) (JNum (- 2)) (JNum 2)
     (JNum 1))) = ''custom'' \<and>
   uPMatrix (p5_renderer (ortho sketch (JNum (- 50)) (JNum 50) (JNum (- 50)) (JNum 50)
     (JNum 100) (JNum 50))) =
     Matrix_ortho Matrix_identity (- 50) 50 (- 50) 50 100 50"
  using projection_parameters_unchecked [of "pi / 2" "- 2" 2 1 sketch "- 50" 50 "- 50" 50 100 50]
  by (simp add: InvalidProjectionParameters_def)

text \<open>
  C3, as the claim has it, fails: for a negative aspect ratio and a far distance below
  the near one, \<open>perspective\<close> replaces the projection matrix of the sketch by the matrix
  built from these numbers and sets the kind to custom, and \<open>ortho\<close> does the same for a
  far distance below the near one.
\<close>

theorem projection_parameters_unchecked_counterexample:
  "InvalidProjectionParameters (pi / 2) (- 2) 2 1 \<and>
   uPMatrix (p5_renderer sketch) = [1, 0, 0, 0,  0, 1, 0, 0,  0, 0, 1, 0,  0, 0, 0, 1] \<and>
   r_curCamera (p5_renderer sketch) = ''default'' \<and>
   perspective sketch (JNum (pi / 2)) (JNum (- 2)) (JNum 2) (JNum 1) =
     sketch\<lparr>p5_renderer := (p5_renderer sketch)
       \<lparr>uPMatrix := [- 1 / 2, 0, 0, 0,  0, 1, 0, 0,  0, 0, 3, - 1,  0, 0, 4, 0],
        r_curCamera := ''custom''\<rparr>\<rparr> \<and>
   ortho sketch (JNum (- 50)) (JNum 50) (JNum (- 50)) (JNum 50) (JNum 100) (JNum 50) =
     sketch\<lparr>p5_renderer := (p5_renderer sketch)
       \<lparr>uPMatrix := [1 / 50, 0, 0, 0,  0, 1 / 50, 0, 0,  0, 0, - 1 / 25, 0,  0, 0, 3, 1],
        r_curCamera := ''custom''\<rparr>\<rparr>"
  by (simp add: InvalidProjectionParameters_def perspective_def ortho_def
      Matrix_perspective_def Matrix_ortho_def Matrix_identity_def p5_tan_def tan_45 sketch_def)

section \<open>Camera position\<close>

lemma upt_16: "[0..<16] = [0, 1, 2, 3, 4, 5, 6, 7, 8, 9, 10, 11, 12, 13, 14, 15]"
  by (simp add: upt_rec)

lemma mat_mult_translation:
  "mat_mult m (translation x y z) =
     [m ! 0, m ! 1, m ! 2, m ! 3,  m ! 4, m ! 5, m ! 6, m ! 7,
      m ! 8, m ! 9, m ! 10, m ! 11,
      m ! 0 * x + m ! 4 * y + m ! 8 * z + m ! 12,
      m ! 1 * x + m ! 5 * y + m ! 9 * z + m ! 13,
      m ! 2 * x + m ! 6 * y + m ! 10 * z + m ! 14,
      m ! 3 * x + m ! 7 * y + m ! 11 * z + m ! 15]"
  by (simp add: mat_mult_def translation_def upt_16)

lemma Matrix_translate_twice:
  "Matrix_translate (Matrix_translate m x1 y1 z1) x2 y2 z2 =
     Matrix_translate m (x1 + x2) (y1 + y2) (z1 + z2)"
  by (simp add: Matrix_translate_def mat_mult_translation algebra_simps)

lemma Matrix_translate_identity:
  "Matrix_translate Matrix_identity x y z = translation x y z"
  unfolding Matrix_translate_def mat_mult_translation
  by (simp add: Matrix_identity_def translation_def)

lemma Matrix_translate_entries:
  "Matrix_translate m x y z =
     [m ! 0, m ! 1, m ! 2, m ! 3,  m ! 4, m ! 5, m ! 6, m ! 7,
      m ! 8, m ! 9, m ! 10, m ! 11,
      m ! 0 * x + m ! 4 * y + m ! 8 * z + m ! 12,
      m ! 1 * x + m ! 5 * y + m ! 9 * z + m ! 13,
      m ! 2 * x + m ! 6 * y + m ! 10 * z + m ! 14,
      m ! 3 * x + m ! 7 * y + m ! 11 * z + m ! 15]"
  by (simp add: Matrix_translate_def mat_mult_translation)

lemma camera_state:
  "camera this x y z =
     this\<lparr>p5_renderer := (p5_renderer this)
       \<lparr>uMVMatrix := Matrix_translate (uMVMatrix (p5_renderer this)) (- x) (- y) (- z)\<rparr>\<rparr>"
  by (simp add: camera_def renderer_translate_def)

lemma camera_twice:
  "uMVMatrix (p5_renderer (camera (camera this x1 y1 z1) x2 y2 z2)) =
     Matrix_translate (Matrix_translate (uMVMatrix (p5_renderer this)) (- x1) (- y1) (- z1))
       (- x2) (- y2) (- z2)"
  by (simp add: camera_def renderer_translate_def)

lemma camera_100_then_0:
  "uMVMatrix (p5_renderer (camera (camera this 0 0 100) 0 0 0)) =
     Matrix_translate (uMVMatrix (p5_renderer this)) 0 0 (- 100)"
  by (simp add: camera_def renderer_translate_def Matrix_translate_twice)

lemma camera_from_identity:
  "uMVMatrix (p5_renderer this) = Matrix_identity \<Longrightarrow>
   uMVMatrix (p5_renderer (camera this x y z)) =
     [1, 0, 0, 0,  0, 1, 0, 0,  0, 0, 1, 0,  - x, - y, - z, 1]"
  "uMVMatrix (p5_renderer this) = Matrix_identity \<Longrightarrow>
   uMVMatrix (p5_renderer (camera (camera this 0 0 100) 0 0 0)) =
     [1, 0, 0, 0,  0, 1, 0, 0,  0, 0, 1, 0,  0, 0, - 100, 1]"
  by (simp_all add: camera_def renderer_translate_def Matrix_translate_entries
      Matrix_identity_def)

text \<open>
  C4, as the source has it. Each camera command \<open>camera(x, y, z)\<close> translates the view
  matrix that is there by \<open>(- x, - y, - z)\<close> and changes nothing else, so the second of two
  commands in a row is composed onto the result of the first and does not replace it.
  Setting the camera to \<open>(0, 0, 100)\<close> and then to \<open>(0, 0, 0)\<close> leaves the view matrix
  translated by \<open>(0, 0, - 100)\<close> from the original one; from the identity, its
  translation component is \<open>(0, 0, - 100)\<close>.
\<close>

theorem camera_accumulates:
  "camera this x y z =
     this\<lparr>p5_renderer := (p5_renderer this)
       \<lparr>uMVMatrix := Matrix_translate (uMVMatrix (p5_renderer this)) (- x) (- y) (- z)\<rparr>\<rparr> \<and>
   Matrix_translate m x y z =
     [m ! 0, m ! 1, m ! 2, m ! 3,  m ! 4, m ! 5, m ! 6, m ! 7,
      m ! 8, m ! 9, m ! 10, m ! 11,
      m ! 0 * x + m ! 4 * y + m ! 8 * z + m ! 12,
      m ! 1 * x + m ! 5 * y + m ! 9 * z + m ! 13,
      m ! 2 * x + m ! 6 * y + m ! 10 * z + m ! 14,
      m ! 3 * x + m ! 7 * y + m ! 11 * z + m ! 15] \<and>
   uMVMatrix (p5_renderer (camera (camera this x1 y1 z1) x2 y2 z2)) =
     Matrix_translate (Matrix_translate (uMVMatrix (p5_renderer this)) (- x1) (- y1) (- z1))
       (- x2) (- y2) (- z2) \<and>
   uMVMatrix (p5_renderer (camera (camera this 0 0 100) 0 0 0)) =
     Matrix_translate (uMVMatrix (p5_renderer this)) 0 0 (- 100) \<and>
   (uMVMatrix (p5_renderer this) = Matrix_identity \<longrightarrow>
      uMVMatrix (p5_renderer (camera this x y z)) =
        [1, 0, 0, 0,  0, 1, 0, 0,  0, 0, 1, 0,  - x, - y, - z, 1] \<and>
      uMVMatrix (p5_renderer (camera (camera this 0 0 100) 0 0 0)) =
        [1, 0, 0, 0,  0, 1, 0, 0,  0, 0, 1, 0,  0, 0, - 100, 1])"
  using camera_state [of this x y z] Matrix_translate_entries [of m x y z]
    camera_twice [of this x1 y1 z1 x2 y2 z2] camera_100_then_0 [of this]
    camera_from_identity(1) [of this x y z] camera_from_identity(2) [of this]
  by blast

theorem camera_accumulates_witness:
  "uMVMatrix (p5_renderer sketch) = Matrix_identity \<and>
   uMVMatrix (p5_renderer (camera sketch 1 2 3)) =
     [1, 0, 0, 0,  0, 1, 0, 0,  0, 0, 1, 0,  - 1, - 2, - 3, 1] \<and>
   uMVMatrix (p5_renderer (camera (camera sketch 0 0 100) 0 0 0)) =
     [1, 0, 0, 0,  0, 1, 0, 0,  0, 0, 1, 0,  0, 0, - 100, 1]"
proof -
  have m: "uMVMatrix (p5_renderer sketch) = Matrix_identity"
    by (simp add: sketch_def)
  with camera_accumulates [of sketch 1 2 3 Matrix_identity 0 0 100 0 0 0]
  show ?thesis by blast
qed

text \<open>
  C4, as the claim has it, fails: from the identity as view matrix, the camera set to
  \<open>(0, 0, 100)\<close> and then to \<open>(0, 0, 0)\<close> leaves the translation \<open>(0, 0, - 100)\<close>, where
  the camera set to \<open>(0, 0, 0)\<close> alone leaves \<open>(0, 0, 0)\<close>.
\<close>

theorem camera_accumulates_counterexample:
  "uMVMatrix (p5_renderer sketch) = [1, 0, 0, 0,  0, 1, 0, 0,  0, 0, 1, 0,  0, 0, 0, 1] \<and>
   uMVMatrix (p5_renderer (camera (camera sketch 0 0 100) 0 0 0)) =
     [1, 0, 0, 0,  0, 1, 0, 0,  0, 0, 1, 0,  0, 0, - 100, 1] \<and>
   uMVMatrix (p5_renderer (camera sketch 0 0 0)) =
     [1, 0, 0, 0,  0, 1, 0, 0,  0, 0, 1, 0,  0, 0, 0, 1] \<and>
   camera (camera sketch 0 0 100) 0 0 0 \<noteq> camera sketch 0 0 0"
  by (simp add: camera_def renderer_translate_def Matrix_translate_def mat_mult_translation
      sketch_def Matrix_identity_def)

section \<open>Projection kind\<close>

lemma camera_curCamera:
  "r_curCamera (p5_renderer (camera this x y z)) = r_curCamera (p5_renderer this)"
  by (simp add: camera_def renderer_translate_def)

lemma perspective_curCamera:
  "r_curCamera (p5_renderer (perspective this fovy aspect near far)) = ''custom''"
  by (simp add: perspective_def Let_def)

lemma ortho_curCamera:
  "r_curCamera (p5_renderer (ortho this left right bottom top' near far)) = ''custom''"
  by (simp add: ortho_def Let_def)

lemma exec_keeps_custom:
  "r_curCamera (p5_renderer this) = ''custom'' \<Longrightarrow>
   r_curCamera (p5_renderer (exec this c)) = ''custom''"
  by (cases c) (simp_all add: camera_curCamera perspective_curCamera ortho_curCamera)

lemma run_keeps_custom:
  "r_curCamera (p5_renderer this) = ''custom'' \<Longrightarrow>
   r_curCamera (p5_renderer (run this cmds)) = ''custom''"
  unfolding run_def
  by (induction cmds arbitrary: this) (simp_all add: exec_keeps_custom)

text \<open>
  C9. After \<open>perspective\<close> or \<open>ortho\<close>, with parameters given or left out, the projection
  kind is custom, and it stays custom through every further sequence of camera,
  perspective and ortho commands: from any state in which it is custom, none of them sets
  it back.
\<close>

theorem projection_kind_stays_custom:
  "r_curCamera (p5_renderer (perspective this fovy aspect near far)) = ''custom'' \<and>
   r_curCamera (p5_renderer (ortho this left right bottom top' onear ofar)) = ''custom'' \<and>
   r_curCamera (p5_renderer (run (perspective this fovy aspect near far) cmds)) = ''custom'' \<and>
   r_curCamera (p5_renderer (run (ortho this left right bottom top' onear ofar) cmds))
     = ''custom'' \<and>
   (r_curCamera (p5_renderer this) = ''custom'' \<longrightarrow>
      r_curCamera (p5_renderer (run this cmds)) = ''custom'')"
  by (simp add: run_keeps_custom perspective_curCamera ortho_curCamera)

theorem projection_kind_stays_custom_witness:
  "r_curCamera (p5_renderer sketch) = ''default'' \<and>
   r_curCamera (p5_renderer (ortho sketch Undefined Undefined Undefined Undefined Undefined
     Undefined)) = ''custom'' \<and>
   r_curCamera (p5_renderer
     (run (ortho sketch Undefined Undefined Undefined Undefined Undefined Undefined)
        [Camera 0 0 100,
         Perspective (JNum 1) Undefined (JNum 0) (JNum 100),
         Camera 1 2 3,
         Ortho Undefined Undefined Undefined Undefined (JNum 0) (JNum 500)])) = ''custom''"
proof -
  let ?s = "ortho sketch Undefined Undefined Undefined Undefined Undefined Undefined"
  let ?cmds = "[Camera 0 0 100, Perspective (JNum 1) Undefined (JNum 0) (JNum 100),
     Camera 1 2 3, Ortho Undefined Undefined Undefined Undefined (JNum 0) (JNum 500)]"
  have "r_curCamera (p5_renderer sketch) = ''default''"
    by (simp add: sketch_def)
  moreover have "r_curCamera (p5_renderer ?s) = ''custom''"
    by (simp add: ortho_def Let_def)
  moreover from this have "r_curCamera (p5_renderer (run ?s ?cmds)) = ''custom''"
    using projection_kind_stays_custom [of ?s Undefined Undefined Undefined Undefined
        Undefined Undefined Undefined Undefined Undefined Undefined ?cmds]
    by blast
  ultimately show ?thesis by blast
qed

section \<open>Loading\<close>

text \<open>
  C10. \<open>loadImage\<close> returns, without waiting for the outcome of the load, an image of
  width 1 and height 1. The \<open>onload\<close> handler gives it the width and height of the
  decoded image; the \<open>onerror\<close> handler leaves it as it is, 1 by 1.
\<close>

theorem loadImage_placeholder:
  "i_width (fst (loadImage path success failure decrement)) = 1 \<and>
   i_height (fst (loadImage path success failure decrement)) = 1 \<and>
   i_width (fst (settle (loadImage path success failure decrement) (Loaded d)))
     = real (d_width d) \<and>
   i_height (fst (settle (loadImage path success failure decrement) (Loaded d)))
     = real (d_height d) \<and>
   fst (settle (loadImage path success failure decrement) LoadError)
     = fst (loadImage path success failure decrement)"
  by (simp add: loadImage_def new_p5Image_def onload_def onerror_def Let_def)

theorem loadImage_placeholder_witness:
  "i_width (fst (loadImage ''assets/laDefense.jpg'' (Function 0) NotAFunction NotAFunction))
     = 1 \<and>
   i_height (fst (loadImage ''assets/laDefense.jpg'' (Function 0) NotAFunction NotAFunction))
     = 1 \<and>
   i_width (fst (settle (loadImage ''assets/laDefense.jpg'' (Function 0) NotAFunction
     NotAFunction) (Loaded two_pixels))) = 2 \<and>
   i_height (fst (settle (loadImage ''assets/laDefense.jpg'' (Function 0) NotAFunction
     NotAFunction) (Loaded two_pixels))) = 1 \<and>
   i_width (fst (settle (loadImage ''assets/laDefense.jpg'' (Function 0) NotAFunction
     NotAFunction) LoadError)) = 1"
  using loadImage_placeholder [of "''assets/laDefense.jpg''" "Function 0" NotAFunction
      NotAFunction two_pixels]
  by (simp add: two_pixels_def)

end
